theory Spec2Isabelle
  imports Main
begin

section \<open>Python strings and integers\<close>

text \<open>
  Strings are ASCII: a \<open>string\<close> is a list of bytes, and \<open>str.lower\<close>, the
  character class \<open>[^a-z0-9_]\<close> and \<open>int(...)\<close> are modelled on ASCII text.
\<close>

definition lower_char :: "char \<Rightarrow> char" where
  "lower_char c =
     (case map_of (zip ''ABCDEFGHIJKLMNOPQRSTUVWXYZ'' ''abcdefghijklmnopqrstuvwxyz'') c of
        Some d \<Rightarrow> d
      | None \<Rightarrow> c)"

definition lower :: "string \<Rightarrow> string" where
  "lower s = map lower_char s"

text \<open>The characters the class \<open>[a-z0-9_]\<close> accepts.\<close>

definition key_char :: "char \<Rightarrow> bool" where
  "key_char c = (c \<in> set ''abcdefghijklmnopqrstuvwxyz0123456789_'')"

text \<open>\<open>re.sub(r'[^a-z0-9_]', '_', s)\<close>\<close>

definition re_sub_key :: "string \<Rightarrow> string" where
  "re_sub_key s = map (\<lambda>c. if key_char c then c else CHR ''_'') s"

definition digit_char :: "nat \<Rightarrow> char" where
  "digit_char d = ''0123456789'' ! d"

definition digit_value :: "char \<Rightarrow> nat option" where
  "digit_value c = map_of (zip ''0123456789'' [0, 1, 2, 3, 4, 5, 6, 7, 8, 9]) c"

text \<open>\<open>str(n)\<close> for an integer: its decimal digits, with a minus sign when negative.\<close>

fun str_nat :: "nat \<Rightarrow> string" where
  "str_nat n = (if n < 10 then [digit_char n] else str_nat (n div 10) @ [digit_char (n mod 10)])"

declare str_nat.simps [simp del]

definition str_int :: "int \<Rightarrow> string" where
  "str_int i = (if i < 0 then CHR ''-'' # str_nat (nat (- i)) else str_nat (nat i))"

section \<open>Scopes and their storage keys\<close>

text \<open>
  A scope is a typed identity (an object of a class named \<open>kind\<close> with an integer
  \<open>id\<close>) or a string. \<open>CogData.__model_db_name\<close> raises \<open>TypeError\<close> on any other
  argument; the type \<open>scope\<close> has no such value.
\<close>

datatype scope = Snowflake string int | Named string

fun model_db_name :: "scope \<Rightarrow> string" where
  "model_db_name (Snowflake kind ident) = lower (kind @ ''_'' @ str_int ident)"
| "model_db_name (Named name) = re_sub_key (lower name)"

section \<open>Errors and values\<close>

text \<open>
  Every \<open>raise\<close> of the source is a constructor, named after the place that raises.
  \<open>SchemaError\<close>, \<open>TableNameError\<close>, \<open>NoSuchTable\<close>, \<open>NotKeyValueTable\<close> and
  \<open>ValueError\<close> are all \<open>ValueError\<close> in Python: the first is raised by
  \<open>TableBuilder.__init__\<close>, the second by \<open>TableBuilder.table_name\<close>, the third and
  fourth by the key-value helpers, the last by \<open>int(...)\<close>. \<open>OperationalError\<close> and
  \<open>ProgrammingError\<close> are the storage engine's.
\<close>

datatype error =
    IndexError
  | TypeError
  | ValueError
  | SchemaError
  | TableNameError
  | NoSuchTable
  | NotKeyValueTable
  | OperationalError
  | ProgrammingError

text \<open>Python values, as far as the broker passes them on: \<open>None\<close>, booleans, integers, strings.\<close>

datatype pyval = PNone | PBool bool | PInt int | PStr string

text \<open>A Python \<open>dict\<close> with string keys, in insertion order; its keys are distinct.\<close>

type_synonym pydict = "(string \<times> pyval) list"

definition keys :: "pydict \<Rightarrow> string list" where
  "keys d = map fst d"

definition vals :: "pydict \<Rightarrow> pyval list" where
  "vals d = map snd d"

definition startswith :: "string \<Rightarrow> string \<Rightarrow> bool" where
  "startswith s p = (take (length p) s = p)"

section \<open>Table schemas\<close>

record TableBuilder =
  query :: string
  default_values :: "pydict list"
  insert_on_reconnect :: bool

text \<open>\<open>TableBuilder.__init__\<close>\<close>

definition TableBuilder_init :: "string \<Rightarrow> pydict list \<Rightarrow> bool \<Rightarrow> error + TableBuilder" where
  "TableBuilder_init q dv ior =
     (if \<not> startswith q ''CREATE TABLE'' then Inl SchemaError
      else case dv of
        [] \<Rightarrow> Inr \<lparr>query = q, default_values = dv, insert_on_reconnect = ior\<rparr>
      | d0 # _ \<Rightarrow>
          if \<not> list_all (\<lambda>d. set (keys d) = set (keys d0)) dv then Inl SchemaError
          else Inr \<lparr>query = q, default_values = dv, insert_on_reconnect = ior\<rparr>)"

text \<open>
  \<open>TableBuilder.table_name\<close> searches the statement with the expressions
  \<open>CREATE TABLE IF NOT EXISTS (.*) \(\<close> and then \<open>CREATE TABLE (.*) \(\<close>. A search
  takes the leftmost place where the literal prefix stands and the rest of that line has a
  space followed by an opening parenthesis; the group \<open>(.*)\<close> is greedy, so it runs up to
  the last such place of the line.
\<close>

fun greedy_group :: "string \<Rightarrow> string option" where
  "greedy_group [] = None"
| "greedy_group (c # cs) =
     (case greedy_group cs of
        Some g \<Rightarrow> Some (c # g)
      | None \<Rightarrow> if startswith (c # cs) '' ('' then Some [] else None)"

fun re_search :: "string \<Rightarrow> string \<Rightarrow> string option" where
  "re_search p [] = None"
| "re_search p (c # cs) =
     (if startswith (c # cs) p
      then (case greedy_group (takeWhile (\<lambda>x. x \<noteq> CHR 0x0A) (drop (length p) (c # cs))) of
              Some g \<Rightarrow> Some g
            | None \<Rightarrow> re_search p cs)
      else re_search p cs)"

definition table_name :: "TableBuilder \<Rightarrow> error + string" where
  "table_name b =
     (case re_search ''CREATE TABLE IF NOT EXISTS '' (query b) of
        Some g \<Rightarrow> Inr g
      | None \<Rightarrow>
          (case re_search ''CREATE TABLE '' (query b) of
             Some g \<Rightarrow> Inr g
           | None \<Rightarrow> Inl TableNameError))"

text \<open>\<open>DictTableBuilder.__init__\<close>, whose argument is a \<open>dict\<close> by its type.\<close>

definition dict_query :: "string \<Rightarrow> string" where
  "dict_query name = ''CREATE TABLE IF NOT EXISTS '' @ name @ '' (key TEXT PRIMARY KEY, value TEXT)''"

definition dict_rows :: "pydict \<Rightarrow> pydict list" where
  "dict_rows dv = map (\<lambda>(k, v). [(''key'', PStr k), (''value'', v)]) dv"

definition DictTableBuilder_init :: "string \<Rightarrow> pydict \<Rightarrow> bool \<Rightarrow> error + TableBuilder" where
  "DictTableBuilder_init name dv ior = TableBuilder_init (dict_query name) (dict_rows dv) ior"

text \<open>
  The spec's words for the default rows of a schema: they all share one field set.
\<close>

definition uniform_fields :: "pydict list \<Rightarrow> bool" where
  "uniform_fields dv = (\<forall>d \<in> set dv. \<forall>d' \<in> set dv. set (keys d) = set (keys d'))"

section \<open>The storage engine\<close>

text \<open>
  The broker keeps its data in SQLite files. The engine is not part of the repository; it
  is modelled as far as the broker's own statements use it: \<open>CREATE TABLE\<close>,
  \<open>INSERT OR IGNORE\<close>, \<open>INSERT OR REPLACE\<close>, \<open>DELETE ... WHERE key=?\<close> and
  \<open>SELECT *\<close>. A table has named columns, each with text affinity or none, at most one
  uniqueness constraint (its key columns) and its rows in insertion order. A row gives
  every column of its table a value. Two rows conflict when the table has a key and they
  agree on it with no \<open>NULL\<close> in it.
\<close>

datatype sqlval = SNull | SInt int | SText string

datatype affinity = TextAffinity | NoAffinity

type_synonym sqlrow = "(string \<times> sqlval) list"

record table =
  t_name :: string
  t_columns :: "(string \<times> affinity) list"
  t_key :: "string list"
  t_rows :: "sqlrow list"

type_synonym database = "table list"

text \<open>
  How the engine reads a creation statement is a parameter: \<open>None\<close> for a statement it
  rejects, otherwise whether the statement says \<open>IF NOT EXISTS\<close> and the table it declares.
\<close>

type_synonym engine = "string \<Rightarrow> (bool \<times> table) option"

text \<open>The engine's adaptation of a Python value bound to a \<open>?\<close> (a \<open>bool\<close> is an \<open>int\<close>).\<close>

fun adapt :: "pyval \<Rightarrow> sqlval" where
  "adapt PNone = SNull"
| "adapt (PBool b) = SInt (if b then 1 else 0)"
| "adapt (PInt i) = SInt i"
| "adapt (PStr s) = SText s"

fun apply_affinity :: "affinity \<Rightarrow> sqlval \<Rightarrow> sqlval" where
  "apply_affinity TextAffinity (SInt i) = SText (str_int i)"
| "apply_affinity a v = v"

definition find_table :: "database \<Rightarrow> string \<Rightarrow> table option" where
  "find_table db n = find (\<lambda>t. t_name t = n) db"

definition put_table :: "database \<Rightarrow> table \<Rightarrow> database" where
  "put_table db t = map (\<lambda>u. if t_name u = t_name t then t else u) db"

definition sql_create_table :: "engine \<Rightarrow> database \<Rightarrow> string \<Rightarrow> error + database" where
  "sql_create_table eng db q =
     (case eng q of
        None \<Rightarrow> Inl OperationalError
      | Some (if_not_exists, decl) \<Rightarrow>
          (case find_table db (t_name decl) of
             Some t \<Rightarrow> if if_not_exists then Inr db else Inl OperationalError
           | None \<Rightarrow> Inr (db @ [decl\<lparr>t_rows := []\<rparr>])))"

definition cell :: "sqlrow \<Rightarrow> string \<Rightarrow> sqlval" where
  "cell r c = (case map_of r c of Some v \<Rightarrow> v | None \<Rightarrow> SNull)"

definition build_row :: "table \<Rightarrow> string list \<Rightarrow> sqlval list \<Rightarrow> sqlrow" where
  "build_row t cols vs =
     map (\<lambda>(c, a). (c, case map_of (zip cols vs) c of
                          None \<Rightarrow> SNull
                        | Some v \<Rightarrow> apply_affinity a v)) (t_columns t)"

definition key_of :: "table \<Rightarrow> sqlrow \<Rightarrow> sqlval list" where
  "key_of t r = map (cell r) (t_key t)"

definition conflicts :: "table \<Rightarrow> sqlrow \<Rightarrow> sqlrow \<Rightarrow> bool" where
  "conflicts t r r' = (t_key t \<noteq> [] \<and> SNull \<notin> set (key_of t r) \<and> key_of t r = key_of t r')"

text \<open>
  The checks of an \<open>INSERT INTO n (cols) VALUES (?, ...)\<close> with the values \<open>vs\<close> bound:
  the table exists, the column list is not empty and names columns of the table, and there
  are as many values as \<open>?\<close>.
\<close>

definition insert_target :: "database \<Rightarrow> string \<Rightarrow> string list \<Rightarrow> sqlval list \<Rightarrow> error + table" where
  "insert_target db n cols vs =
     (case find_table db n of
        None \<Rightarrow> Inl OperationalError
      | Some t \<Rightarrow>
          if cols = [] then Inl OperationalError
          else if \<not> list_all (\<lambda>c. c \<in> set (map fst (t_columns t))) cols then Inl OperationalError
          else if length vs \<noteq> length cols then Inl ProgrammingError
          else Inr t)"

definition insert_or_ignore :: "database \<Rightarrow> string \<Rightarrow> string list \<Rightarrow> sqlval list \<Rightarrow> error + database" where
  "insert_or_ignore db n cols vs =
     (case insert_target db n cols vs of
        Inl e \<Rightarrow> Inl e
      | Inr t \<Rightarrow>
          if list_ex (conflicts t (build_row t cols vs)) (t_rows t) then Inr db
          else Inr (put_table db (t\<lparr>t_rows := t_rows t @ [build_row t cols vs]\<rparr>)))"

definition insert_or_replace :: "database \<Rightarrow> string \<Rightarrow> string list \<Rightarrow> sqlval list \<Rightarrow> error + database" where
  "insert_or_replace db n cols vs =
     (case insert_target db n cols vs of
        Inl e \<Rightarrow> Inl e
      | Inr t \<Rightarrow>
          Inr (put_table db
                 (t\<lparr>t_rows := filter (\<lambda>r. \<not> conflicts t (build_row t cols vs) r) (t_rows t)
                               @ [build_row t cols vs]\<rparr>)))"

text \<open>\<open>cursor.executemany\<close> of an \<open>INSERT OR IGNORE\<close>: one execution per tuple, in order.\<close>

fun executemany_insert_or_ignore ::
  "database \<Rightarrow> string \<Rightarrow> string list \<Rightarrow> sqlval list list \<Rightarrow> error + database" where
  "executemany_insert_or_ignore db n cols [] = Inr db"
| "executemany_insert_or_ignore db n cols (vs # rest) =
     (case insert_or_ignore db n cols vs of
        Inl e \<Rightarrow> Inl e
      | Inr db' \<Rightarrow> executemany_insert_or_ignore db' n cols rest)"

text \<open>
  The comparison \<open>key=?\<close> of a \<open>WHERE\<close> clause: the column's affinity is applied to the
  bound value, and \<open>NULL\<close> equals nothing.
\<close>

definition key_matches :: "table \<Rightarrow> sqlval \<Rightarrow> sqlrow \<Rightarrow> bool" where
  "key_matches t v r =
     (case map_of (t_columns t) ''key'' of
        None \<Rightarrow> False
      | Some a \<Rightarrow> cell r ''key'' \<noteq> SNull \<and> cell r ''key'' = apply_affinity a v)"

section \<open>Python conversions\<close>

text \<open>\<open>str(v)\<close>\<close>

fun py_str :: "pyval \<Rightarrow> string" where
  "py_str PNone = ''None''"
| "py_str (PBool b) = (if b then ''True'' else ''False'')"
| "py_str (PInt i) = str_int i"
| "py_str (PStr s) = s"

text \<open>
  \<open>int(s)\<close> for a string: surrounding white space is dropped, a sign may lead, and the
  digits may be grouped by single underscores.
\<close>

definition is_space :: "char \<Rightarrow> bool" where
  "is_space c = (c \<in> set [CHR '' '', CHR 0x09, CHR 0x0A, CHR 0x0B, CHR 0x0C, CHR 0x0D,
                            CHR 0x1C, CHR 0x1D, CHR 0x1E, CHR 0x1F])"

definition strip :: "string \<Rightarrow> string" where
  "strip s = rev (dropWhile is_space (rev (dropWhile is_space s)))"

fun digits_value :: "nat \<Rightarrow> string \<Rightarrow> nat option" where
  "digits_value acc [] = Some acc"
| "digits_value acc (c # cs) =
     (case digit_value c of
        Some d \<Rightarrow> digits_value (10 * acc + d) cs
      | None \<Rightarrow>
          if c = CHR ''_''
          then (case cs of
                  [] \<Rightarrow> None
                | c' # _ \<Rightarrow> (case digit_value c' of None \<Rightarrow> None | Some _ \<Rightarrow> digits_value acc cs))
          else None)"

definition unsigned_int :: "string \<Rightarrow> error + int" where
  "unsigned_int body =
     (case body of
        [] \<Rightarrow> Inl ValueError
      | c # _ \<Rightarrow>
          (case digit_value c of
             None \<Rightarrow> Inl ValueError
           | Some _ \<Rightarrow>
               (case digits_value 0 body of
                  None \<Rightarrow> Inl ValueError
                | Some n \<Rightarrow> Inr (int n))))"

definition py_int_str :: "string \<Rightarrow> error + int" where
  "py_int_str s =
     (case strip s of
        [] \<Rightarrow> Inl ValueError
      | c # cs \<Rightarrow>
          if c = CHR ''-'' then (case unsigned_int cs of Inl e \<Rightarrow> Inl e | Inr i \<Rightarrow> Inr (- i))
          else if c = CHR ''+'' then unsigned_int cs
          else unsigned_int (c # cs))"

text \<open>\<open>int(v)\<close>\<close>

fun py_int :: "pyval \<Rightarrow> error + int" where
  "py_int PNone = Inl TypeError"
| "py_int (PBool b) = Inr (if b then 1 else 0)"
| "py_int (PInt i) = Inr i"
| "py_int (PStr s) = py_int_str s"

text \<open>What a cell is in Python, when read from a row.\<close>

fun to_python :: "sqlval \<Rightarrow> pyval" where
  "to_python SNull = PNone"
| "to_python (SInt i) = PInt i"
| "to_python (SText s) = PStr s"

text \<open>The types a caller passes as \<open>cast\<close>: \<open>str\<close>, \<open>int\<close> and \<open>bool\<close>.\<close>

datatype cast = CastStr | CastInt | CastBool

section \<open>Files and connections\<close>

text \<open>
  A path is the list of its components. The world holds the storage files (a file's
  content is what has been committed to it), the open connections by handle, and the
  number of connections opened so far, which names the next handle. A connection sees its
  own uncommitted writes: \<open>c_view\<close> is the database as the connection reads it; a commit
  writes the view to the file, and closing drops what was not committed. One connection
  per file is open at a time.
\<close>

type_synonym path = "string list"

record connection =
  c_path :: path
  c_view :: database

record world =
  files :: "path \<rightharpoonup> database"
  conns :: "nat \<rightharpoonup> connection"
  opened :: nat

section \<open>Scope connections\<close>

record ModelDataManager =
  model :: scope
  builders :: "TableBuilder list"
  conn :: nat

text \<open>
  The statement the bootstrap runs to seed a table:
  \<open>INSERT OR IGNORE INTO name (keys of the first default row) VALUES (?, ...)\<close>, executed
  for the values of every default row. Reading \<open>default_values[0]\<close> raises \<open>IndexError\<close>
  on an empty sequence.
\<close>

definition insert_defaults :: "database \<Rightarrow> string \<Rightarrow> pydict list \<Rightarrow> error + database" where
  "insert_defaults db name dv =
     (case dv of
        [] \<Rightarrow> Inl IndexError
      | d0 # _ \<Rightarrow> executemany_insert_or_ignore db name (keys d0) (map (\<lambda>d. map adapt (vals d)) dv))"

text \<open>
  The loop of \<open>ModelDataManager.__get_connection\<close> over the builders. \<open>tables\<close> is the
  list of table names read before the loop; \<open>db\<close> is the connection's view and
  \<open>commit_on_close\<close> the flag of the source.
\<close>

fun bootstrap ::
  "engine \<Rightarrow> string list \<Rightarrow> TableBuilder list \<Rightarrow> database \<Rightarrow> bool \<Rightarrow> error + (database \<times> bool)" where
  "bootstrap eng tables [] db commit_on_close = Inr (db, commit_on_close)"
| "bootstrap eng tables (b # bs) db commit_on_close =
     (case table_name b of
        Inl e \<Rightarrow> Inl e
      | Inr name \<Rightarrow>
          (case (if name \<notin> set tables
                 then (case sql_create_table eng db (query b) of
                         Inl e \<Rightarrow> Inl e
                       | Inr db1 \<Rightarrow>
                           (case (if default_values b \<noteq> []
                                  then insert_defaults db1 name (default_values b)
                                  else Inr db1) of
                              Inl e \<Rightarrow> Inl e
                            | Inr db2 \<Rightarrow> Inr (db2, True)))
                 else Inr (db, commit_on_close)) of
             Inl e \<Rightarrow> Inl e
           | Inr (db3, c) \<Rightarrow>
               (case (if insert_on_reconnect b
                      then insert_defaults db3 name (default_values b)
                      else Inr db3) of
                  Inl e \<Rightarrow> Inl e
                | Inr db4 \<Rightarrow> bootstrap eng tables bs db4 c)))"

text \<open>
  \<open>ModelDataManager.__get_connection\<close>. \<open>connect\<close> is the database the connection
  starts from: what the file holds, and nothing when the file is missing (connecting creates
  it). The result is the new handle. The model does not follow the storage after an open
  that raises.
\<close>

definition connect :: "world \<Rightarrow> path \<Rightarrow> database" where
  "connect w p = (case files w p of None \<Rightarrow> [] | Some db \<Rightarrow> db)"

definition get_connection :: "engine \<Rightarrow> world \<Rightarrow> path \<Rightarrow> TableBuilder list \<Rightarrow> error + (nat \<times> world)" where
  "get_connection eng w p bs =
     (let db0 = connect w p in
      case bootstrap eng (map t_name db0) bs db0 False of
        Inl e \<Rightarrow> Inl e
      | Inr (db, commit_on_close) \<Rightarrow>
          Inr (opened w,
               w\<lparr>files := (files w)(p \<mapsto> (if commit_on_close then db else db0)),
                 conns := (conns w)(opened w \<mapsto> \<lparr>c_path = p, c_view = db\<rparr>),
                 opened := Suc (opened w)\<rparr>))"

text \<open>\<open>ModelDataManager.__init__\<close>\<close>

definition ModelDataManager_init ::
  "engine \<Rightarrow> world \<Rightarrow> scope \<Rightarrow> path \<Rightarrow> TableBuilder list \<Rightarrow> error + (ModelDataManager \<times> world)" where
  "ModelDataManager_init eng w mdl p bs =
     (case get_connection eng w p bs of
        Inl e \<Rightarrow> Inl e
      | Inr (h, w') \<Rightarrow> Inr (\<lparr>model = mdl, builders = bs, conn = h\<rparr>, w'))"

text \<open>\<open>ModelDataManager.close\<close>\<close>

definition manager_close :: "world \<Rightarrow> ModelDataManager \<Rightarrow> world" where
  "manager_close w m = w\<lparr>conns := (conns w)(conn m := None)\<rparr>"

text \<open>The view of a manager's connection; a closed connection raises.\<close>

definition view :: "world \<Rightarrow> ModelDataManager \<Rightarrow> error + database" where
  "view w m = (case conns w (conn m) of None \<Rightarrow> Inl ProgrammingError | Some c \<Rightarrow> Inr (c_view c))"

text \<open>\<open>ModelDataManager.tables\<close>\<close>

definition tables :: "world \<Rightarrow> ModelDataManager \<Rightarrow> error + string list" where
  "tables w m = (case view w m of Inl e \<Rightarrow> Inl e | Inr db \<Rightarrow> Inr (map t_name db))"

text \<open>\<open>ModelDataManager.extract_column_names\<close>\<close>

definition extract_column_names :: "world \<Rightarrow> ModelDataManager \<Rightarrow> string \<Rightarrow> error + string list" where
  "extract_column_names w m tn =
     (case view w m of
        Inl e \<Rightarrow> Inl e
      | Inr db \<Rightarrow>
          (case find_table db tn of
             None \<Rightarrow> Inl OperationalError
           | Some t \<Rightarrow> Inr (map fst (t_columns t))))"

text \<open>
  The four key-value helpers start with the same checks; \<open>dict_table\<close> is that common
  start, and returns the table.
\<close>

definition dict_table :: "world \<Rightarrow> ModelDataManager \<Rightarrow> string \<Rightarrow> error + table" where
  "dict_table w m tn =
     (case tables w m of
        Inl e \<Rightarrow> Inl e
      | Inr ts \<Rightarrow>
          if tn \<notin> set ts then Inl NoSuchTable
          else (case extract_column_names w m tn of
                  Inl e \<Rightarrow> Inl e
                | Inr columns \<Rightarrow>
                    if ''key'' \<notin> set columns then Inl NotKeyValueTable
                    else if ''value'' \<notin> set columns then Inl NotKeyValueTable
                    else (case view w m of
                            Inl e \<Rightarrow> Inl e
                          | Inr db \<Rightarrow>
                              (case find_table db tn of
                                 None \<Rightarrow> Inl OperationalError
                               | Some t \<Rightarrow> Inr t))))"

text \<open>\<open>ModelDataManager.get_dict_value\<close>\<close>

definition get_dict_value :: "world \<Rightarrow> ModelDataManager \<Rightarrow> string \<Rightarrow> string \<Rightarrow> cast \<Rightarrow> error + pyval" where
  "get_dict_value w m tn k cst =
     (case dict_table w m tn of
        Inl e \<Rightarrow> Inl e
      | Inr t \<Rightarrow>
          (case find (key_matches t (SText k)) (t_rows t) of
             None \<Rightarrow> Inr PNone
           | Some row \<Rightarrow>
               (case cst of
                  CastBool \<Rightarrow>
                    (case py_int (to_python (cell row ''value'')) of
                       Inl e \<Rightarrow> Inl e
                     | Inr i \<Rightarrow> Inr (PBool (i \<noteq> 0)))
                | CastInt \<Rightarrow>
                    (case py_int (to_python (cell row ''value'')) of
                       Inl e \<Rightarrow> Inl e
                     | Inr i \<Rightarrow> Inr (PInt i))
                | CastStr \<Rightarrow> Inr (PStr (py_str (to_python (cell row ''value'')))))))"

text \<open>
  \<open>ModelDataManager.get_dict_values\<close>: the dictionary comprehension keeps, for a key that
  comes twice, its first place and its last value.
\<close>

fun dict_set :: "('k \<times> 'v) list \<Rightarrow> 'k \<Rightarrow> 'v \<Rightarrow> ('k \<times> 'v) list" where
  "dict_set [] k v = [(k, v)]"
| "dict_set ((k', v') # d) k v = (if k' = k then (k', v) # d else (k', v') # dict_set d k v)"

definition get_dict_values :: "world \<Rightarrow> ModelDataManager \<Rightarrow> string \<Rightarrow> error + (pyval \<times> string) list" where
  "get_dict_values w m tn =
     (case dict_table w m tn of
        Inl e \<Rightarrow> Inl e
      | Inr t \<Rightarrow>
          Inr (foldl (\<lambda>d row. dict_set d (to_python (cell row ''key''))
                                  (py_str (to_python (cell row ''value'')))) [] (t_rows t)))"

text \<open>
  \<open>ModelDataManager.execute\<close> with \<open>commit=True\<close>, for a statement that turns the view
  into \<open>db\<close>: the view changes and is written to the file.
\<close>

definition execute_commit :: "world \<Rightarrow> ModelDataManager \<Rightarrow> database \<Rightarrow> world" where
  "execute_commit w m db =
     (case conns w (conn m) of
        None \<Rightarrow> w
      | Some c \<Rightarrow> w\<lparr>files := (files w)(c_path c \<mapsto> db),
                     conns := (conns w)(conn m \<mapsto> c\<lparr>c_view := db\<rparr>)\<rparr>)"

text \<open>
  \<open>ModelDataManager.set_dict_value\<close>. The result pairs what the call raises, if anything,
  with the world it leaves.
\<close>

definition set_dict_value ::
  "world \<Rightarrow> ModelDataManager \<Rightarrow> string \<Rightarrow> string \<Rightarrow> pyval \<Rightarrow> (error + unit) \<times> world" where
  "set_dict_value w m tn k v =
     (case dict_table w m tn of
        Inl e \<Rightarrow> (Inl e, w)
      | Inr t \<Rightarrow>
          (let v' = (case v of PBool b \<Rightarrow> PInt (if b then 1 else 0) | _ \<Rightarrow> v);
               dump = py_str v'
           in case view w m of
                Inl e \<Rightarrow> (Inl e, w)
              | Inr db \<Rightarrow>
                  (case insert_or_replace db tn [''key'', ''value''] [SText k, SText dump] of
                     Inl e \<Rightarrow> (Inl e, w)
                   | Inr db' \<Rightarrow> (Inr (), execute_commit w m db'))))"

text \<open>\<open>ModelDataManager.delete_dict_value\<close>\<close>

definition delete_dict_value ::
  "world \<Rightarrow> ModelDataManager \<Rightarrow> string \<Rightarrow> string \<Rightarrow> (error + unit) \<times> world" where
  "delete_dict_value w m tn k =
     (case dict_table w m tn of
        Inl e \<Rightarrow> (Inl e, w)
      | Inr t \<Rightarrow>
          (case view w m of
             Inl e \<Rightarrow> (Inl e, w)
           | Inr db \<Rightarrow>
               (Inr (), execute_commit w m
                  (put_table db (t\<lparr>t_rows := filter (\<lambda>r. \<not> key_matches t (SText k) r) (t_rows t)\<rparr>)))))"

section \<open>The domain registry\<close>

text \<open>
  Builders are linked to a class (by its name) or to a named scope. The registry's cache
  maps a scope to its manager.
\<close>

datatype model_type = ClassOf string | GlobalName string

record CogData =
  cog_name :: string
  managers :: "scope \<rightharpoonup> ModelDataManager"
  linked :: "model_type \<rightharpoonup> TableBuilder list"

text \<open>\<open>CogData.__init__\<close>\<close>

definition CogData_init :: "string \<Rightarrow> CogData" where
  "CogData_init name = \<lparr>cog_name = name, managers = Map.empty, linked = Map.empty\<rparr>"

definition cog_folder :: "CogData \<Rightarrow> path" where
  "cog_folder cd = [''cogs'', cog_name cd]"

text \<open>\<open>if isinstance(model, str): model = model.lower()\<close>\<close>

fun lower_model :: "scope \<Rightarrow> scope" where
  "lower_model (Named s) = Named (lower s)"
| "lower_model (Snowflake kind ident) = Snowflake kind ident"

fun lower_model_type :: "model_type \<Rightarrow> model_type" where
  "lower_model_type (GlobalName s) = GlobalName (lower s)"
| "lower_model_type (ClassOf kind) = ClassOf kind"

text \<open>\<open>CogData.link\<close>\<close>

definition link :: "CogData \<Rightarrow> model_type \<Rightarrow> TableBuilder list \<Rightarrow> CogData" where
  "link cd mt bs = cd\<lparr>linked := (linked cd)(lower_model_type mt \<mapsto> bs)\<rparr>"

text \<open>\<open>CogData.get_linked_builders\<close>\<close>

definition get_linked_builders :: "CogData \<Rightarrow> model_type \<Rightarrow> TableBuilder list" where
  "get_linked_builders cd mt =
     (case linked cd (lower_model_type mt) of None \<Rightarrow> [] | Some bs \<Rightarrow> bs)"

text \<open>\<open>type(model) if isinstance(model, discord.abc.Snowflake) else model\<close>\<close>

fun type_of_model :: "scope \<Rightarrow> model_type" where
  "type_of_model (Snowflake kind ident) = ClassOf kind"
| "type_of_model (Named s) = GlobalName s"

text \<open>The file \<open>CogData.__get_manager\<close> opens for a scope.\<close>

definition storage_path :: "CogData \<Rightarrow> scope \<Rightarrow> path" where
  "storage_path cd mdl = cog_folder cd @ [''data''] @ [model_db_name mdl @ ''.db'']"

text \<open>\<open>CogData.__get_manager\<close>\<close>

definition get_manager :: "engine \<Rightarrow> CogData \<Rightarrow> world \<Rightarrow> scope \<Rightarrow> error + (ModelDataManager \<times> world)" where
  "get_manager eng cd w mdl =
     ModelDataManager_init eng w mdl (storage_path cd mdl) (get_linked_builders cd (type_of_model mdl))"

text \<open>\<open>CogData.get\<close>\<close>

definition get ::
  "engine \<Rightarrow> CogData \<Rightarrow> world \<Rightarrow> scope \<Rightarrow> error + (ModelDataManager \<times> CogData \<times> world)" where
  "get eng cd w mdl =
     (case managers cd (lower_model mdl) of
        Some m \<Rightarrow> Inr (m, cd, w)
      | None \<Rightarrow>
          (case get_manager eng cd w (lower_model mdl) of
             Inl e \<Rightarrow> Inl e
           | Inr (m, w') \<Rightarrow> Inr (m, cd\<lparr>managers := (managers cd)(lower_model mdl \<mapsto> m)\<rparr>, w')))"

text \<open>\<open>CogData.close\<close>\<close>

definition close :: "CogData \<Rightarrow> world \<Rightarrow> scope \<Rightarrow> CogData \<times> world" where
  "close cd w mdl =
     (case managers cd (lower_model mdl) of
        None \<Rightarrow> (cd, w)
      | Some m \<Rightarrow> (cd\<lparr>managers := (managers cd)(lower_model mdl := None)\<rparr>, manager_close w m))"

text \<open>
  \<open>CogData.delete\<close>: the manager, if cached, is closed and forgotten; then the file
  \<open>cog_folder / (db_name + '.db')\<close> is unlinked if it exists.
\<close>

definition delete :: "CogData \<Rightarrow> world \<Rightarrow> scope \<Rightarrow> CogData \<times> world" where
  "delete cd w mdl =
     (case close cd w mdl of
        (cd', w') \<Rightarrow>
          (let db_path = cog_folder cd @ [model_db_name (lower_model mdl) @ ''.db''] in
           if files w' db_path \<noteq> None
           then (cd', w'\<lparr>files := (files w')(db_path := None)\<rparr>)
           else (cd', w')))"

section \<open>What a sequence of insertions leaves\<close>

text \<open>
  The rows of a table after \<open>INSERT OR IGNORE\<close> of the rows \<open>rs\<close>, one after the other:
  a row that conflicts with a row already there is skipped.
\<close>

fun insert_rows :: "table \<Rightarrow> sqlrow list \<Rightarrow> sqlrow list \<Rightarrow> sqlrow list" where
  "insert_rows t R [] = R"
| "insert_rows t R (r # rs) =
     insert_rows t (if list_ex (conflicts t r) R then R else R @ [r]) rs"


text \<open>The rows the bootstrap binds for the default rows of a builder, as the table stores them.\<close>

definition default_rows :: "table \<Rightarrow> pydict list \<Rightarrow> sqlrow list" where
  "default_rows t dv =
     (case dv of
        [] \<Rightarrow> []
      | d0 # _ \<Rightarrow> map (\<lambda>d. build_row t (keys d0) (map adapt (vals d))) dv)"

text \<open>
  The engine accepts the seeding statement for the default rows \<open>dv\<close> on the table \<open>t\<close>:
  there is a first row, it has a field, its fields are columns of the table, and every row
  binds as many values as the first.
\<close>

definition bindable :: "table \<Rightarrow> pydict list \<Rightarrow> bool" where
  "bindable t dv =
     (case dv of
        [] \<Rightarrow> False
      | d0 # _ \<Rightarrow>
          d0 \<noteq> [] \<and> list_all (\<lambda>c. c \<in> set (map fst (t_columns t))) (keys d0) \<and>
          list_all (\<lambda>d. length d = length d0) dv)"

text \<open>
  A default row as its table stores it, read field by field: a column the row names gets
  the row's value, adapted and with the column's affinity applied; any other column is
  \<open>NULL\<close>.
\<close>

definition stored_row :: "table \<Rightarrow> pydict \<Rightarrow> sqlrow" where
  "stored_row t d =
     map (\<lambda>(c, a). (c, case map_of d c of
                          None \<Rightarrow> SNull
                        | Some v \<Rightarrow> apply_affinity a (adapt v))) (t_columns t)"


text \<open>
  The table the engine reads from a builder's statement (the empty table when it rejects
  the statement), and that table holding the builder's default rows.
\<close>

definition declared :: "engine \<Rightarrow> TableBuilder \<Rightarrow> table" where
  "declared eng b =
     (case eng (query b) of
        None \<Rightarrow> \<lparr>t_name = [], t_columns = [], t_key = [], t_rows = []\<rparr>
      | Some (if_not_exists, decl) \<Rightarrow> decl)"

definition seeded :: "engine \<Rightarrow> TableBuilder \<Rightarrow> table" where
  "seeded eng b = (declared eng b)\<lparr>t_rows := map (stored_row (declared eng b)) (default_values b)\<rparr>"


section \<open>Key-value tables and an example registry\<close>

text \<open>
  The table the statement of a \<open>DictTableBuilder\<close> declares: two text columns, \<open>key\<close>
  the primary key.
\<close>

definition kv_table :: "string \<Rightarrow> sqlrow list \<Rightarrow> table" where
  "kv_table name rows =
     \<lparr>t_name = name, t_columns = [(''key'', TextAffinity), (''value'', TextAffinity)],
      t_key = [''key''], t_rows = rows\<rparr>"

definition kv_row :: "string \<Rightarrow> string \<Rightarrow> sqlrow" where
  "kv_row k v = [(''key'', SText k), (''value'', SText v)]"



text \<open>An engine that reads the statement of the key-value table \<open>settings\<close>, and nothing else.\<close>

definition settings_engine :: engine where
  "settings_engine q =
     (if q = dict_query ''settings'' then Some (True, kv_table ''settings'' []) else None)"

definition settings_builder :: "pydict \<Rightarrow> TableBuilder" where
  "settings_builder dv =
     \<lparr>query = dict_query ''settings'', default_values = dict_rows dv, insert_on_reconnect = True\<rparr>"

definition empty_world :: world where
  "empty_world = \<lparr>files = Map.empty, conns = Map.empty, opened = 0\<rparr>"

text \<open>A registry with the key-value schema \<open>settings\<close> linked to the class \<open>Guild\<close>.\<close>

definition settings_cog :: "pydict \<Rightarrow> CogData" where
  "settings_cog dv = link (CogData_init ''refix'') (ClassOf ''Guild'') [settings_builder dv]"



definition notes_builder :: TableBuilder where
  "notes_builder =
     \<lparr>query = ''CREATE TABLE notes (body TEXT)'', default_values = [[(''body'', PStr ''hello'')]],
      insert_on_reconnect = True\<rparr>"





text \<open>
  A world whose only file is the storage of guild 1 under the registry \<open>refix\<close>, holding
  the database \<open>db\<close>; no connection is open.
\<close>

definition stored_world :: "database \<Rightarrow> world" where
  "stored_world db =
     \<lparr>files = [[''cogs'', ''refix'', ''data'', ''guild_1.db''] \<mapsto> db], conns = Map.empty, opened = 0\<rparr>"

text \<open>
  A world in which guild 1 of the registry \<open>refix\<close> is open on handle 0, its file and its
  connection holding the database \<open>db\<close>; and a manager on that handle.
\<close>

definition open_world :: "database \<Rightarrow> world" where
  "open_world db =
     \<lparr>files = [[''cogs'', ''refix'', ''data'', ''guild_1.db''] \<mapsto> db],
      conns = [0 \<mapsto> \<lparr>c_path = [''cogs'', ''refix'', ''data'', ''guild_1.db''], c_view = db\<rparr>],
      opened = Suc 0\<rparr>"

definition guild_manager :: ModelDataManager where
  "guild_manager = \<lparr>model = Snowflake ''Guild'' 1, builders = [], conn = 0\<rparr>"

text \<open>A table with the columns \<open>key\<close> and \<open>value\<close> and a third one.\<close>

definition wide_table :: table where
  "wide_table =
     \<lparr>t_name = ''settings'',
      t_columns = [(''key'', TextAffinity), (''value'', TextAffinity), (''note'', TextAffinity)],
      t_key = [''key''], t_rows = []\<rparr>"

section \<open>The contract of the key-value helpers\<close>

text \<open>
  The two errors the helpers raise for a table that does not fit, and the condition the
  code tests: the connection's database has the table, and \<open>key\<close> and \<open>value\<close> are among
  its columns.
\<close>

definition contract_error :: "error + 'a \<Rightarrow> bool" where
  "contract_error r = (r = Inl NoSuchTable \<or> r = Inl NotKeyValueTable)"

definition has_kv_columns :: "world \<Rightarrow> ModelDataManager \<Rightarrow> string \<Rightarrow> bool" where
  "has_kv_columns w m tn =
     (case view w m of
        Inl e \<Rightarrow> False
      | Inr db \<Rightarrow>
          (case find_table db tn of
             None \<Rightarrow> False
           | Some t \<Rightarrow> ''key'' \<in> set (map fst (t_columns t)) \<and> ''value'' \<in> set (map fst (t_columns t))))"

section \<open>Facts about strings\<close>










subsection \<open>Decimal rendering is injective\<close>














section \<open>Facts about the storage engine\<close>


lemma find_table_put:
  "find_table (put_table db t) n =
     (if n = t_name t then (case find_table db n of None \<Rightarrow> None | Some _ \<Rightarrow> Some t)
      else find_table db n)"
  by (induction db) (auto simp: find_table_def put_table_def)


lemma build_row_rows [simp]: "build_row (t\<lparr>t_rows := X\<rparr>) = build_row t"
  by (rule ext)+ (simp add: build_row_def)

lemma conflicts_rows [simp]: "conflicts (t\<lparr>t_rows := X\<rparr>) = conflicts t"
  by (rule ext)+ (simp add: conflicts_def key_of_def)

lemma insert_rows_rows [simp]: "insert_rows (t\<lparr>t_rows := X\<rparr>) R rs = insert_rows t R rs"
  by (induction rs arbitrary: R) simp_all






lemma find_table_None_iff: "find_table db n = None \<longleftrightarrow> n \<notin> set (map t_name db)"
  by (induction db) (auto simp: find_table_def)

lemma singleton_db: "map t_name db = [n] \<Longrightarrow> find_table db n = Some t \<Longrightarrow> db = [t]"
  by (cases db) (auto simp: find_table_def split: if_splits)



lemma bindable_rows [simp]: "bindable (t\<lparr>t_rows := X\<rparr>) dv = bindable t dv"
  by (simp add: bindable_def split: list.splits)

lemma default_rows_rows [simp]: "default_rows (t\<lparr>t_rows := X\<rparr>) dv = default_rows t dv"
  by (simp add: default_rows_def split: list.splits)












lemma get_linked_builders_managers [simp]:
  "get_linked_builders (cd\<lparr>managers := X\<rparr>) mt = get_linked_builders cd mt"
  by (simp add: get_linked_builders_def)

lemma storage_path_managers [simp]:
  "storage_path (cd\<lparr>managers := X\<rparr>) mdl = storage_path cd mdl"
  by (simp add: storage_path_def cog_folder_def)

subsection \<open>The example schemas\<close>




lemma table_name_settings: "table_name (settings_builder dv) = Inr ''settings''"
  by (simp add: table_name_def settings_builder_def dict_query_def startswith_def)

lemma uniform_fields_Cons:
  "uniform_fields (d0 # ds) \<longleftrightarrow> list_all (\<lambda>d. set (keys d) = set (keys d0)) (d0 # ds)"
  unfolding uniform_fields_def list_all_iff by (metis list.set_intros(1))

lemma kv_table_sel [simp]:
  "t_name (kv_table n R) = n"
  "t_columns (kv_table n R) = [(''key'', TextAffinity), (''value'', TextAffinity)]"
  "t_key (kv_table n R) = [''key'']"
  "t_rows (kv_table n R) = R"
  by (simp_all add: kv_table_def)

lemma guild_db_name: "model_db_name (Snowflake ''Guild'' 1) = ''guild_1''"
  by (simp add: lower_def lower_char_def str_int_def str_nat.simps digit_char_def)

lemma guild_storage_path:
  "storage_path (settings_cog dv) (Snowflake ''Guild'' 1) = [''cogs'', ''refix'', ''data'', ''guild_1.db'']"
  by (simp add: storage_path_def cog_folder_def settings_cog_def link_def CogData_init_def
      guild_db_name del: model_db_name.simps)

lemma settings_linked:
  "get_linked_builders (settings_cog dv) (ClassOf ''Guild'') = [settings_builder dv]"
  by (simp add: get_linked_builders_def settings_cog_def link_def CogData_init_def)

lemma settings_managers: "managers (settings_cog dv) = Map.empty"
  by (simp add: settings_cog_def link_def CogData_init_def)

lemma bootstrap_settings_fresh:
  "bootstrap settings_engine [] [settings_builder [(''auto_fix'', PBool False)]] [] False
     = Inr ([kv_table ''settings'' [kv_row ''auto_fix'' ''0'']], True)"
  by (simp add: table_name_settings)
    (simp add: settings_builder_def settings_engine_def sql_create_table_def find_table_def
      dict_rows_def insert_defaults_def keys_def vals_def insert_or_ignore_def insert_target_def
      kv_table_def build_row_def conflicts_def key_of_def cell_def put_table_def kv_row_def
      str_int_def str_nat.simps digit_char_def)

lemma bootstrap_settings_stored:
  "bootstrap settings_engine [''settings'']
      [settings_builder [(''auto_fix'', PBool False), (''delay'', PInt 5)]]
      [kv_table ''settings'' [kv_row ''auto_fix'' ''1'']] False
     = Inr ([kv_table ''settings'' [kv_row ''auto_fix'' ''1'', kv_row ''delay'' ''5'']], False)"
  by (simp add: table_name_settings)
    (simp add: settings_builder_def
      dict_rows_def insert_defaults_def keys_def vals_def insert_or_ignore_def insert_target_def
      kv_table_def build_row_def conflicts_def key_of_def cell_def put_table_def kv_row_def
      find_table_def str_int_def str_nat.simps digit_char_def)

lemma bootstrap_settings_again:
  "bootstrap settings_engine [''settings''] [settings_builder [(''auto_fix'', PBool False)]]
      [kv_table ''settings'' [kv_row ''auto_fix'' ''1'']] False
     = Inr ([kv_table ''settings'' [kv_row ''auto_fix'' ''1'']], False)"
  by (simp add: table_name_settings)
    (simp add: settings_builder_def
      dict_rows_def insert_defaults_def keys_def vals_def insert_or_ignore_def insert_target_def
      kv_table_def build_row_def conflicts_def key_of_def cell_def put_table_def kv_row_def
      find_table_def str_int_def str_nat.simps digit_char_def)

lemma get_settings_fresh:
  "get settings_engine (settings_cog [(''auto_fix'', PBool False)]) empty_world (Snowflake ''Guild'' 1) =
    Inr (\<lparr>model = Snowflake ''Guild'' 1, builders = [settings_builder [(''auto_fix'', PBool False)]], conn = 0\<rparr>,
         (settings_cog [(''auto_fix'', PBool False)])\<lparr>managers := [Snowflake ''Guild'' 1 \<mapsto>
            \<lparr>model = Snowflake ''Guild'' 1, builders = [settings_builder [(''auto_fix'', PBool False)]], conn = 0\<rparr>]\<rparr>,
         \<lparr>files = [[''cogs'', ''refix'', ''data'', ''guild_1.db''] \<mapsto> [kv_table ''settings'' [kv_row ''auto_fix'' ''0'']]],
          conns = [0 \<mapsto> \<lparr>c_path = [''cogs'', ''refix'', ''data'', ''guild_1.db''],
                          c_view = [kv_table ''settings'' [kv_row ''auto_fix'' ''0'']]\<rparr>],
          opened = Suc 0\<rparr>)"
  by (simp add: get_def get_manager_def ModelDataManager_init_def get_connection_def connect_def
      settings_managers settings_linked guild_storage_path empty_world_def bootstrap_settings_fresh
      del: bootstrap.simps)

lemma py_int_str_1: "py_int_str ''1'' = Inr 1"
  by (simp add: py_int_str_def strip_def is_space_def unsigned_int_def digit_value_def)

subsection \<open>The bootstrap loop\<close>

lemma bootstrap_append:
  "bootstrap eng tbs (pre @ rest) db c =
     (case bootstrap eng tbs pre db c of
        Inl e \<Rightarrow> Inl e
      | Inr (db', c') \<Rightarrow> bootstrap eng tbs rest db' c')"
  by (induction pre arbitrary: db c) (auto split: sum.splits if_splits)

lemma bootstrap_empty_reseed:
  assumes "insert_on_reconnect b" "default_values b = []"
  shows "bootstrap eng tbs (b # post) db c =
     (case table_name b of
        Inl e \<Rightarrow> Inl e
      | Inr n \<Rightarrow>
          if n \<in> set tbs then Inl IndexError
          else (case sql_create_table eng db (query b) of
                  Inl e \<Rightarrow> Inl e
                | Inr db1 \<Rightarrow> Inl IndexError))"
  using assms by (simp add: insert_defaults_def split: sum.splits)

subsection \<open>Key-value tables\<close>












lemma kv_table_rows_update: "(kv_table n R)\<lparr>t_rows := X\<rparr> = kv_table n X"
  by (simp add: kv_table_def)

subsection \<open>The key-value helpers\<close>

lemma find_filter_not: "find P (filter (\<lambda>x. \<not> P x) xs) = None"
  by (induction xs) simp_all

lemma find_append_last: "find P xs = None \<Longrightarrow> P x \<Longrightarrow> find P (xs @ [x]) = Some x"
  by (induction xs) (simp_all split: if_splits)

lemma str_int_bool: "str_int (if b then 1 else 0) = (if b then ''1'' else ''0'')"
  by (simp add: str_int_def str_nat.simps digit_char_def)

lemma py_int_str_0: "py_int_str ''0'' = Inr 0"
  by (simp add: py_int_str_def strip_def is_space_def unsigned_int_def digit_value_def)

lemma dict_table_result:
  assumes "conns w (conn m) = Some c"
  shows "dict_table w m tn =
     (case find_table (c_view c) tn of
        None \<Rightarrow> Inl NoSuchTable
      | Some t \<Rightarrow>
          if ''key'' \<in> set (map fst (t_columns t)) \<and> ''value'' \<in> set (map fst (t_columns t))
          then Inr t else Inl NotKeyValueTable)"
proof (cases "find_table (c_view c) tn")
  case None
  then have "tn \<notin> set (map t_name (c_view c))"
    using find_table_None_iff[of "c_view c" tn] by blast
  with None assms show ?thesis
    by (simp add: dict_table_def tables_def view_def)
next
  case (Some t)
  then have "tn \<in> set (map t_name (c_view c))"
    using find_table_None_iff[of "c_view c" tn] by simp
  with Some assms show ?thesis
    by (simp add: dict_table_def tables_def view_def extract_column_names_def)
qed

lemma insert_target_kv:
  assumes "find_table db tn = Some t" "''key'' \<in> set (map fst (t_columns t))"
    "''value'' \<in> set (map fst (t_columns t))"
  shows "insert_target db tn [''key'', ''value''] [a, b] = Inr t"
  using assms by (simp add: insert_target_def)

lemma build_row_kv:
  "build_row (kv_table tn R) [''key'', ''value''] [SText k, SText v] = kv_row k v"
  by (simp add: build_row_def kv_row_def)

lemma conflicts_kv_row:
  "conflicts (kv_table tn R) (kv_row k v) r \<longleftrightarrow> cell r ''key'' = SText k"
  by (auto simp: conflicts_def key_of_def kv_row_def cell_def)

lemma key_matches_kv:
  "key_matches (kv_table tn R) (SText k) r \<longleftrightarrow> cell r ''key'' = SText k"
  by (auto simp: key_matches_def)

lemma cell_kv_row: "cell (kv_row k v) ''key'' = SText k" "cell (kv_row k v) ''value'' = SText v"
  by (simp_all add: cell_def kv_row_def)

lemma unsigned_int_error: "unsigned_int s = Inl e \<Longrightarrow> e = ValueError"
  by (auto simp: unsigned_int_def split: list.splits option.splits)

lemma py_int_str_error: "py_int_str s = Inl e \<Longrightarrow> e = ValueError"
  by (auto simp: py_int_str_def split: list.splits if_splits sum.splits dest: unsigned_int_error)

lemma py_int_error: "py_int v = Inl e \<Longrightarrow> e = ValueError \<or> e = TypeError"
  by (cases v) (auto dest: py_int_str_error)

lemma cast_not_contract_error:
  "\<not> contract_error (case py_int v of Inl e \<Rightarrow> Inl e | Inr i \<Rightarrow> Inr (f i))"
  by (cases "py_int v") (auto simp: contract_error_def dest: py_int_error)

lemma has_kv_columns_open:
  assumes "conns w (conn m) = Some c"
  shows "has_kv_columns w m tn \<longleftrightarrow>
    (\<exists>t. find_table (c_view c) tn = Some t \<and> ''key'' \<in> set (map fst (t_columns t)) \<and>
         ''value'' \<in> set (map fst (t_columns t)))"
  using assms by (auto simp: has_kv_columns_def view_def split: option.splits)

lemma dict_table_fits:
  assumes "conns w (conn m) = Some c" "has_kv_columns w m tn"
  shows "\<exists>t. dict_table w m tn = Inr t \<and> find_table (c_view c) tn = Some t \<and>
      ''key'' \<in> set (map fst (t_columns t)) \<and> ''value'' \<in> set (map fst (t_columns t))"
proof -
  from assms obtain t where t: "find_table (c_view c) tn = Some t"
    "''key'' \<in> set (map fst (t_columns t))" "''value'' \<in> set (map fst (t_columns t))"
    unfolding has_kv_columns_open[OF assms(1)] by (elim exE conjE)
  then have "dict_table w m tn = Inr t" by (simp add: dict_table_result[OF assms(1)])
  with t show ?thesis by (intro exI conjI)
qed

lemma dict_table_unfit:
  assumes "conns w (conn m) = Some c" "\<not> has_kv_columns w m tn"
  shows "dict_table w m tn = Inl NoSuchTable \<or> dict_table w m tn = Inl NotKeyValueTable"
proof (cases "find_table (c_view c) tn")
  case None
  then show ?thesis by (simp add: dict_table_result[OF assms(1)])
next
  case (Some t)
  with assms(2) have "\<not> (''key'' \<in> set (map fst (t_columns t)) \<and> ''value'' \<in> set (map fst (t_columns t)))"
    unfolding has_kv_columns_open[OF assms(1)] by simp
  with Some show ?thesis by (simp add: dict_table_result[OF assms(1)])
qed

lemma open_world_conn:
  "conns (open_world db) (conn guild_manager)
     = Some \<lparr>c_path = [''cogs'', ''refix'', ''data'', ''guild_1.db''], c_view = db\<rparr>"
  by (simp add: open_world_def guild_manager_def)

subsection \<open>Seeding a list of schemas\<close>





lemma seeded_name [simp]: "t_name (seeded eng b) = t_name (declared eng b)"
  by (simp add: seeded_def)



















section \<open>The storage key of a scope\<close>




section \<open>Seeding the default rows\<close>






section \<open>Constructing a schema\<close>

text \<open>
  C9: \<open>TableBuilder.__init__\<close> raises its error exactly when the statement does not start
  with \<open>CREATE TABLE\<close> or the default rows do not all have the same field set; otherwise it
  returns the schema with the statement, the rows and the policy it was given. The
  constructor takes no storage and returns none.
\<close>

theorem TableBuilder_init_result:
  "TableBuilder_init q dv ior =
     (if startswith q ''CREATE TABLE'' \<and> uniform_fields dv
      then Inr \<lparr>query = q, default_values = dv, insert_on_reconnect = ior\<rparr>
      else Inl SchemaError)"
proof (cases dv)
  case Nil
  then show ?thesis by (simp add: TableBuilder_init_def uniform_fields_def)
next
  case (Cons d0 ds)
  then show ?thesis
    by (simp only: TableBuilder_init_def uniform_fields_Cons list.case split: if_splits) simp
qed

text \<open>
  C9 at three inputs: a statement with one default row, a statement that is no table
  creation, and two default rows with different fields.
\<close>

theorem TableBuilder_init_result_witness:
  "TableBuilder_init ''CREATE TABLE notes (body TEXT)'' [[(''body'', PStr ''hello'')]] True
     = Inr notes_builder \<and>
   TableBuilder_init ''DROP TABLE notes'' [] False = Inl SchemaError \<and>
   TableBuilder_init ''CREATE TABLE notes (body TEXT)''
     [[(''body'', PStr ''hello'')], [(''title'', PStr ''hello'')]] False = Inl SchemaError"
  using TableBuilder_init_result [of "''CREATE TABLE notes (body TEXT)''" "[[(''body'', PStr ''hello'')]]" True]
    TableBuilder_init_result [of "''DROP TABLE notes''" "[]" False]
    TableBuilder_init_result [of "''CREATE TABLE notes (body TEXT)''"
      "[[(''body'', PStr ''hello'')], [(''title'', PStr ''hello'')]]" False]
  by (simp add: startswith_def uniform_fields_def keys_def notes_builder_def)

section \<open>Deleting a scope\<close>

text \<open>
  C1 says that after \<open>delete(scope)\<close> the scope's storage file is gone and the next
  \<open>get(scope)\<close> starts from the defaults. The code opens the storage at
  \<open>cogs/<cog>/data/<key>.db\<close> and unlinks \<open>cogs/<cog>/<key>.db\<close>. Here the registry
  \<open>refix\<close> links the key-value schema \<open>settings\<close> with the default \<open>auto_fix = False\<close> to
  guilds; guild 1 is opened, \<open>auto_fix\<close> is set to \<open>True\<close>, the scope is deleted and opened
  again: the file is still there with the value \<open>1\<close>, and the value read back is \<open>True\<close>,
  not the default.
\<close>

theorem delete_leaves_storage_file:
  "(case get settings_engine (settings_cog [(''auto_fix'', PBool False)]) empty_world (Snowflake ''Guild'' 1) of
      Inl e \<Rightarrow> False
    | Inr (m1, cd1, w1) \<Rightarrow>
        (case set_dict_value w1 m1 ''settings'' ''auto_fix'' (PBool True) of
           (r, w2) \<Rightarrow>
             (case delete cd1 w2 (Snowflake ''Guild'' 1) of
                (cd3, w3) \<Rightarrow>
                  files w3 (storage_path cd3 (Snowflake ''Guild'' 1))
                    = Some [kv_table ''settings'' [kv_row ''auto_fix'' ''1'']] \<and>
                  (case get settings_engine cd3 w3 (Snowflake ''Guild'' 1) of
                     Inl e \<Rightarrow> False
                   | Inr (m4, cd4, w4) \<Rightarrow>
                       get_dict_value w4 m4 ''settings'' ''auto_fix'' CastBool = Inr (PBool True)))))"
proof -
  let ?b = "settings_builder [(''auto_fix'', PBool False)]"
  let ?cd = "settings_cog [(''auto_fix'', PBool False)]"
  let ?g = "Snowflake ''Guild'' 1"
  let ?p = "[''cogs'', ''refix'', ''data'', ''guild_1.db'']"
  let ?m1 = "\<lparr>model = ?g, builders = [?b], conn = 0\<rparr>"
  let ?cd1 = "?cd\<lparr>managers := [?g \<mapsto> ?m1]\<rparr>"
  let ?w1 = "\<lparr>files = [?p \<mapsto> [kv_table ''settings'' [kv_row ''auto_fix'' ''0'']]],
          conns = [0 \<mapsto> \<lparr>c_path = ?p, c_view = [kv_table ''settings'' [kv_row ''auto_fix'' ''0'']]\<rparr>],
          opened = Suc 0\<rparr>"
  let ?w2 = "\<lparr>files = [?p \<mapsto> [kv_table ''settings'' [kv_row ''auto_fix'' ''1'']]],
          conns = [0 \<mapsto> \<lparr>c_path = ?p, c_view = [kv_table ''settings'' [kv_row ''auto_fix'' ''1'']]\<rparr>],
          opened = Suc 0\<rparr>"
  let ?cd3 = "?cd\<lparr>managers := Map.empty\<rparr>"
  let ?w3 = "\<lparr>files = [?p \<mapsto> [kv_table ''settings'' [kv_row ''auto_fix'' ''1'']]],
          conns = Map.empty, opened = Suc 0\<rparr>"
  let ?m4 = "\<lparr>model = ?g, builders = [?b], conn = Suc 0\<rparr>"
  let ?cd4 = "?cd\<lparr>managers := [?g \<mapsto> ?m4]\<rparr>"
  let ?w4 = "\<lparr>files = [?p \<mapsto> [kv_table ''settings'' [kv_row ''auto_fix'' ''1'']]],
          conns = [Suc 0 \<mapsto> \<lparr>c_path = ?p, c_view = [kv_table ''settings'' [kv_row ''auto_fix'' ''1'']]\<rparr>],
          opened = Suc (Suc 0)\<rparr>"
  have s1: "get settings_engine ?cd empty_world ?g = Inr (?m1, ?cd1, ?w1)"
    by (rule get_settings_fresh)
  have s2: "set_dict_value ?w1 ?m1 ''settings'' ''auto_fix'' (PBool True) = (Inr (), ?w2)"
    by (simp add: Let_def set_dict_value_def dict_table_def tables_def view_def extract_column_names_def
        find_table_def kv_table_def insert_or_replace_def insert_target_def build_row_def
        conflicts_def key_of_def cell_def kv_row_def put_table_def execute_commit_def
        str_int_def str_nat.simps digit_char_def)
  have s3: "delete ?cd1 ?w2 ?g = (?cd3, ?w3)"
    by (simp add: delete_def close_def manager_close_def cog_folder_def settings_cog_def link_def
        CogData_init_def guild_db_name del: model_db_name.simps)
  have s4: "get settings_engine ?cd3 ?w3 ?g = Inr (?m4, ?cd4, ?w4)"
    by (simp add: get_def get_manager_def ModelDataManager_init_def get_connection_def connect_def
      settings_linked guild_storage_path bootstrap_settings_again Let_def
      del: bootstrap.simps)
  have s5: "get_dict_value ?w4 ?m4 ''settings'' ''auto_fix'' CastBool = Inr (PBool True)"
    by (simp add: get_dict_value_def dict_table_def tables_def view_def extract_column_names_def
        find_table_def kv_table_def key_matches_def cell_def kv_row_def py_int_str_1)
  have s6: "files ?w3 (storage_path ?cd3 ?g) = Some [kv_table ''settings'' [kv_row ''auto_fix'' ''1'']]"
    by (simp add: guild_storage_path)
  show ?thesis
    unfolding s1 by (simp only: s2 s3 s4 s5 s6 sum.case prod.case simp_thms)
qed

text \<open>In general, \<open>delete\<close> leaves every storage file of every registry as it was.\<close>

lemma delete_keeps_storage_files:
  "files (snd (delete cd w mdl)) (storage_path cd' mdl') = files w (storage_path cd' mdl')"
  by (simp add: delete_def close_def manager_close_def storage_path_def cog_folder_def Let_def
      split: option.splits)

section \<open>The commit at the end of the bootstrap\<close>

text \<open>
  C3 says that the bootstrap commits whenever it wrote. The flag \<open>commit_on_close\<close> is set
  where a table is created, not in the reseed step. Here the storage of guild 1 already has
  the table \<open>settings\<close> with \<open>auto_fix = 1\<close>, and the schema has a new default \<open>delay = 5\<close>:
  the bootstrap inserts the row for \<open>delay\<close> and returns the flag \<open>False\<close>; after the open
  the connection sees the new row and the file does not hold it.
\<close>

theorem reseed_left_uncommitted:
  "bootstrap settings_engine [''settings'']
      [settings_builder [(''auto_fix'', PBool False), (''delay'', PInt 5)]]
      [kv_table ''settings'' [kv_row ''auto_fix'' ''1'']] False
     = Inr ([kv_table ''settings'' [kv_row ''auto_fix'' ''1'', kv_row ''delay'' ''5'']], False) \<and>
   (case get settings_engine (settings_cog [(''auto_fix'', PBool False), (''delay'', PInt 5)])
           (stored_world [kv_table ''settings'' [kv_row ''auto_fix'' ''1'']]) (Snowflake ''Guild'' 1) of
      Inl e \<Rightarrow> False
    | Inr (m, cd', w') \<Rightarrow>
        view w' m = Inr [kv_table ''settings'' [kv_row ''auto_fix'' ''1'', kv_row ''delay'' ''5'']] \<and>
        files w' (storage_path cd' (Snowflake ''Guild'' 1))
          = Some [kv_table ''settings'' [kv_row ''auto_fix'' ''1'']])"
proof -
  let ?dv = "[(''auto_fix'', PBool False), (''delay'', PInt 5)]"
  let ?g = "Snowflake ''Guild'' 1"
  let ?p = "[''cogs'', ''refix'', ''data'', ''guild_1.db'']"
  let ?old = "[kv_table ''settings'' [kv_row ''auto_fix'' ''1'']]"
  let ?new = "[kv_table ''settings'' [kv_row ''auto_fix'' ''1'', kv_row ''delay'' ''5'']]"
  let ?m = "\<lparr>model = ?g, builders = [settings_builder ?dv], conn = 0\<rparr>"
  have g: "get settings_engine (settings_cog ?dv) (stored_world ?old) ?g =
      Inr (?m, (settings_cog ?dv)\<lparr>managers := [?g \<mapsto> ?m]\<rparr>,
           \<lparr>files = [?p \<mapsto> ?old], conns = [0 \<mapsto> \<lparr>c_path = ?p, c_view = ?new\<rparr>], opened = Suc 0\<rparr>)"
    by (simp add: get_def get_manager_def ModelDataManager_init_def get_connection_def connect_def
      settings_managers settings_linked guild_storage_path stored_world_def bootstrap_settings_stored
      Let_def del: bootstrap.simps)
  show ?thesis
    unfolding g by (simp add: bootstrap_settings_stored view_def guild_storage_path del: bootstrap.simps)
qed

section \<open>A reseed with no default rows\<close>

text \<open>
  C5: when a registered schema has reseed policy \<open>always\<close> and no default row, the open
  raises and returns no connection; and it raises \<open>IndexError\<close> whenever the schemas before
  it are set up without error and its own table exists or is created without error.
\<close>

theorem reseed_without_defaults_raises:
  assumes "insert_on_reconnect b" and "default_values b = []"
  shows "(\<exists>e. get_connection eng w p (pre @ b # post) = Inl e) \<and>
     (\<forall>db c n.
        bootstrap eng (map t_name (connect w p)) pre (connect w p) False = Inr (db, c) \<and>
        table_name b = Inr n \<and>
        (n \<in> set (map t_name (connect w p)) \<or> (\<exists>db1. sql_create_table eng db (query b) = Inr db1))
        \<longrightarrow> get_connection eng w p (pre @ b # post) = Inl IndexError)"
proof -
  let ?tbs = "map t_name (connect w p)"
  have fails: "\<exists>e. bootstrap eng ?tbs (pre @ b # post) (connect w p) False = Inl e"
    by (auto simp: bootstrap_append bootstrap_empty_reseed[OF assms] split: sum.splits simp del: bootstrap.simps)
  have idx: "bootstrap eng ?tbs (pre @ b # post) (connect w p) False = Inl IndexError"
    if "bootstrap eng ?tbs pre (connect w p) False = Inr (db, c)" "table_name b = Inr n"
      "n \<in> set ?tbs \<or> (\<exists>db1. sql_create_table eng db (query b) = Inr db1)" for db c n
    using that
    by (auto simp: bootstrap_append bootstrap_empty_reseed[OF assms] simp del: bootstrap.simps)
  from fails obtain e where "bootstrap eng ?tbs (pre @ b # post) (connect w p) False = Inl e" ..
  then have "get_connection eng w p (pre @ b # post) = Inl e"
    by (simp add: get_connection_def del: bootstrap.simps)
  moreover have "get_connection eng w p (pre @ b # post) = Inl IndexError"
    if "bootstrap eng ?tbs pre (connect w p) False = Inr (db, c)" "table_name b = Inr n"
      "n \<in> set ?tbs \<or> (\<exists>db1. sql_create_table eng db (query b) = Inr db1)" for db c n
    using idx[OF that] by (simp add: get_connection_def del: bootstrap.simps)
  ultimately show ?thesis by blast
qed

text \<open>
  C5 at a \<open>DictTableBuilder\<close> built with the empty mapping and the default policy: opening
  a fresh storage with it raises \<open>IndexError\<close>.
\<close>

theorem reseed_without_defaults_raises_witness:
  "DictTableBuilder_init ''settings'' [] True = Inr (settings_builder []) \<and>
   insert_on_reconnect (settings_builder []) \<and>
   default_values (settings_builder []) = [] \<and>
   get_connection settings_engine empty_world [''cogs'', ''refix'', ''data'', ''guild_1.db'']
     [settings_builder []] = Inl IndexError"
proof -
  let ?p = "[''cogs'', ''refix'', ''data'', ''guild_1.db'']"
  have i: "DictTableBuilder_init ''settings'' [] True = Inr (settings_builder [])"
    by (simp add: DictTableBuilder_init_def TableBuilder_init_def settings_builder_def dict_rows_def
        dict_query_def startswith_def)
  have h1: "insert_on_reconnect (settings_builder [])" by (simp add: settings_builder_def)
  have h2: "default_values (settings_builder []) = []" by (simp add: settings_builder_def dict_rows_def)
  have c: "connect empty_world ?p = []" by (simp add: connect_def empty_world_def)
  have p1: "bootstrap settings_engine (map t_name (connect empty_world ?p)) [] (connect empty_world ?p) False
      = Inr ([], False)"
    by (simp add: c)
  have p2: "table_name (settings_builder []) = Inr ''settings''" by (rule table_name_settings)
  have p3: "\<exists>db1. sql_create_table settings_engine [] (query (settings_builder [])) = Inr db1"
    by (simp add: sql_create_table_def settings_engine_def settings_builder_def find_table_def)
  from reseed_without_defaults_raises[where b="settings_builder []" and eng=settings_engine
      and w=empty_world and p="?p" and pre="[]" and post="[]", OF h1 h2]
  have "\<forall>db c n.
        bootstrap settings_engine (map t_name (connect empty_world ?p)) [] (connect empty_world ?p) False
          = Inr (db, c) \<and>
        table_name (settings_builder []) = Inr n \<and>
        (n \<in> set (map t_name (connect empty_world ?p)) \<or>
         (\<exists>db1. sql_create_table settings_engine db (query (settings_builder [])) = Inr db1))
        \<longrightarrow> get_connection settings_engine empty_world ?p ([] @ settings_builder [] # []) = Inl IndexError"
    by (rule conjunct2)
  with p1 p2 p3 have "get_connection settings_engine empty_world ?p ([] @ settings_builder [] # []) = Inl IndexError"
    by blast
  then have g: "get_connection settings_engine empty_world ?p [settings_builder []] = Inl IndexError"
    by simp
  from i h1 h2 g show ?thesis by (intro conjI)
qed

section \<open>The cache of scope connections\<close>



section \<open>Reseeding a key-value table\<close>



section \<open>Errors of the key-value helpers\<close>

text \<open>
  C7, as the spec states it: a table whose columns are not exactly \<open>key\<close> and \<open>value\<close> is
  rejected. The code tests that \<open>key\<close> and \<open>value\<close> are among the columns. On a table with
  the columns \<open>key\<close>, \<open>value\<close> and \<open>note\<close> the helpers raise nothing: \<open>get_dict_value\<close>
  returns \<open>None\<close> for a key that is not there, and \<open>set_dict_value\<close> stores.
\<close>

theorem wide_table_accepted:
  "extract_column_names (open_world [wide_table]) guild_manager ''settings''
     = Inr [''key'', ''value'', ''note''] \<and>
   get_dict_value (open_world [wide_table]) guild_manager ''settings'' ''flag'' CastStr = Inr PNone \<and>
   fst (set_dict_value (open_world [wide_table]) guild_manager ''settings'' ''flag'' (PBool True)) = Inr ()"
proof -
  have f: "find_table [wide_table] ''settings'' = Some wide_table"
    by (simp add: find_table_def wide_table_def)
  have dt: "dict_table (open_world [wide_table]) guild_manager ''settings'' = Inr wide_table"
    by (simp add: dict_table_result[OF open_world_conn] f) (simp add: wide_table_def)
  have a: "extract_column_names (open_world [wide_table]) guild_manager ''settings''
     = Inr [''key'', ''value'', ''note'']"
    by (simp add: extract_column_names_def view_def open_world_conn f) (simp add: wide_table_def)
  have b: "get_dict_value (open_world [wide_table]) guild_manager ''settings'' ''flag'' CastStr = Inr PNone"
    unfolding get_dict_value_def dt by (simp add: wide_table_def)
  have it: "insert_target [wide_table] ''settings'' [''key'', ''value''] [x, y] = Inr wide_table" for x y
    by (rule insert_target_kv[OF f]) (simp_all add: wide_table_def)
  have c: "fst (set_dict_value (open_world [wide_table]) guild_manager ''settings'' ''flag'' (PBool True)) = Inr ()"
    unfolding set_dict_value_def dt
    by (simp add: Let_def view_def open_world_conn insert_or_replace_def it)
  from a b c show ?thesis by (intro conjI)
qed

text \<open>
  C7, amended: on an open connection each of the four helpers raises one of the two
  contract errors exactly when the connection's database has no table of that name or the
  table's columns do not include both \<open>key\<close> and \<open>value\<close>; further columns are accepted.
  When \<open>set_dict_value\<close> or \<open>delete_dict_value\<close> raises it, the world is as before the call.
\<close>

theorem kv_contract_errors:
  assumes c: "conns w (conn m) = Some c"
  shows "(contract_error (get_dict_value w m tn k cst) \<longleftrightarrow> \<not> has_kv_columns w m tn) \<and>
         (contract_error (get_dict_values w m tn) \<longleftrightarrow> \<not> has_kv_columns w m tn) \<and>
         (contract_error (fst (set_dict_value w m tn k v)) \<longleftrightarrow> \<not> has_kv_columns w m tn) \<and>
         (contract_error (fst (delete_dict_value w m tn k)) \<longleftrightarrow> \<not> has_kv_columns w m tn) \<and>
         (\<not> has_kv_columns w m tn \<longrightarrow>
            snd (set_dict_value w m tn k v) = w \<and> snd (delete_dict_value w m tn k) = w)"
proof (cases "has_kv_columns w m tn")
  case True
  from dict_table_fits[OF c True] obtain t where dt: "dict_table w m tn = Inr t"
    and f: "find_table (c_view c) tn = Some t"
    and kc: "''key'' \<in> set (map fst (t_columns t))" and vc: "''value'' \<in> set (map fst (t_columns t))"
    by (elim exE conjE)
  have v: "view w m = Inr (c_view c)" using c by (simp add: view_def)
  have g: "\<not> contract_error (get_dict_value w m tn k cst)"
    unfolding get_dict_value_def dt
    by (cases cst; cases "find (key_matches t (SText k)) (t_rows t)")
      (simp_all add: cast_not_contract_error, simp_all add: contract_error_def)
  have gs: "\<not> contract_error (get_dict_values w m tn)"
    unfolding get_dict_values_def dt by (simp add: contract_error_def)
  have it: "insert_target (c_view c) tn [''key'', ''value''] [a, b] = Inr t" for a b
    using f kc vc by (rule insert_target_kv)
  have s: "\<not> contract_error (fst (set_dict_value w m tn k v))"
    unfolding set_dict_value_def dt
    by (simp add: Let_def v insert_or_replace_def it contract_error_def)
  have d: "\<not> contract_error (fst (delete_dict_value w m tn k))"
    unfolding delete_dict_value_def dt by (simp add: v contract_error_def)
  from True g gs s d show ?thesis by simp
next
  case False
  from dict_table_unfit[OF c False]
  have e: "\<exists>e. dict_table w m tn = Inl e \<and> (e = NoSuchTable \<or> e = NotKeyValueTable)" by auto
  then obtain e where dt: "dict_table w m tn = Inl e" and ee: "e = NoSuchTable \<or> e = NotKeyValueTable"
    by (elim exE conjE)
  have g: "get_dict_value w m tn k cst = Inl e" by (simp add: get_dict_value_def dt)
  have gs: "get_dict_values w m tn = Inl e" by (simp add: get_dict_values_def dt)
  have s: "set_dict_value w m tn k v = (Inl e, w)" by (simp add: set_dict_value_def dt)
  have d: "delete_dict_value w m tn k = (Inl e, w)" by (simp add: delete_dict_value_def dt)
  from False ee show ?thesis unfolding g gs s d by (auto simp: contract_error_def)
qed

text \<open>
  C7, amended, at an open connection whose database has the key-value table \<open>settings\<close>
  and no table \<open>missing\<close>.
\<close>

theorem kv_contract_errors_witness:
  "conns (open_world [kv_table ''settings'' []]) (conn guild_manager)
     = Some \<lparr>c_path = [''cogs'', ''refix'', ''data'', ''guild_1.db''],
             c_view = [kv_table ''settings'' []]\<rparr> \<and>
   \<not> has_kv_columns (open_world [kv_table ''settings'' []]) guild_manager ''missing'' \<and>
   contract_error (get_dict_value (open_world [kv_table ''settings'' []]) guild_manager
      ''missing'' ''flag'' CastStr) \<and>
   contract_error (fst (set_dict_value (open_world [kv_table ''settings'' []]) guild_manager
      ''missing'' ''flag'' (PBool True))) \<and>
   snd (set_dict_value (open_world [kv_table ''settings'' []]) guild_manager
      ''missing'' ''flag'' (PBool True)) = open_world [kv_table ''settings'' []] \<and>
   has_kv_columns (open_world [kv_table ''settings'' []]) guild_manager ''settings'' \<and>
   \<not> contract_error (get_dict_value (open_world [kv_table ''settings'' []]) guild_manager
      ''settings'' ''flag'' CastStr)"
proof -
  let ?w = "open_world [kv_table ''settings'' []]"
  have c: "conns ?w (conn guild_manager)
     = Some \<lparr>c_path = [''cogs'', ''refix'', ''data'', ''guild_1.db''], c_view = [kv_table ''settings'' []]\<rparr>"
    by (rule open_world_conn)
  have nh: "\<not> has_kv_columns ?w guild_manager ''missing''"
    by (simp add: has_kv_columns_open[OF c] find_table_def)
  have h: "has_kv_columns ?w guild_manager ''settings''"
    by (simp add: has_kv_columns_open[OF c] find_table_def)
  note t1 = kv_contract_errors[OF c, of "''missing''" "''flag''" CastStr "PBool True"]
  note t2 = kv_contract_errors[OF c, of "''settings''" "''flag''" CastStr "PBool True"]
  have a1: "contract_error (get_dict_value ?w guild_manager ''missing'' ''flag'' CastStr)"
    using t1[THEN conjunct1] nh by (rule iffD2)
  have a2: "contract_error (fst (set_dict_value ?w guild_manager ''missing'' ''flag'' (PBool True)))"
    using t1[THEN conjunct2, THEN conjunct2, THEN conjunct1] nh by (rule iffD2)
  have a3: "snd (set_dict_value ?w guild_manager ''missing'' ''flag'' (PBool True)) = ?w"
    using t1[THEN conjunct2, THEN conjunct2, THEN conjunct2, THEN conjunct2, THEN mp, OF nh]
    by (rule conjunct1)
  have a4: "\<not> contract_error (get_dict_value ?w guild_manager ''settings'' ''flag'' CastStr)"
  proof
    assume "contract_error (get_dict_value ?w guild_manager ''settings'' ''flag'' CastStr)"
    with t2[THEN conjunct1] have "\<not> has_kv_columns ?w guild_manager ''settings''" by (rule iffD1)
    then show False using h by (rule notE)
  qed
  from c nh a1 a2 a3 h a4 show ?thesis by (intro conjI)
qed

section \<open>Booleans through the key-value helpers\<close>

text \<open>
  C10: on a table as a \<open>DictTableBuilder\<close> declares it, \<open>set_dict_value\<close> with a boolean
  returns normally, leaves for the key the one row whose value is the text \<open>1\<close> for
  \<open>True\<close> and \<open>0\<close> for \<open>False\<close>, and \<open>get_dict_value\<close> with \<open>cast=bool\<close> then returns the
  boolean that was set.
\<close>

theorem bool_round_trip:
  assumes c: "conns w (conn m) = Some c"
    and f: "find_table (c_view c) tn = Some (kv_table tn R)"
  shows "\<exists>w' db'.
     set_dict_value w m tn k (PBool b) = (Inr (), w') \<and>
     view w' m = Inr db' \<and>
     find_table db' tn
       = Some (kv_table tn
           (filter (\<lambda>r. cell r ''key'' \<noteq> SText k) R @ [kv_row k (if b then ''1'' else ''0'')])) \<and>
     get_dict_value w' m tn k CastBool = Inr (PBool b)"
proof -
  let ?dump = "if b then ''1'' else ''0''"
  let ?rows = "filter (\<lambda>r. cell r ''key'' \<noteq> SText k) R @ [kv_row k ?dump]"
  let ?db' = "put_table (c_view c) (kv_table tn ?rows)"
  let ?w' = "execute_commit w m ?db'"
  have v: "view w m = Inr (c_view c)" using c by (simp add: view_def)
  have dt: "dict_table w m tn = Inr (kv_table tn R)"
    using f by (simp add: dict_table_result[OF c])
  have it: "insert_target (c_view c) tn [''key'', ''value''] [SText k, SText ?dump] = Inr (kv_table tn R)"
    using f by (intro insert_target_kv) simp_all
  have ir: "insert_or_replace (c_view c) tn [''key'', ''value''] [SText k, SText ?dump] = Inr ?db'"
    unfolding insert_or_replace_def it
    by (simp only: sum.case build_row_kv conflicts_kv_row kv_table_sel kv_table_rows_update)
  have s: "set_dict_value w m tn k (PBool b) = (Inr (), ?w')"
    unfolding set_dict_value_def dt
    by (simp only: sum.case pyval.case Let_def py_str.simps str_int_bool v ir)
  have c': "conns ?w' (conn m) = Some (c\<lparr>c_view := ?db'\<rparr>)"
    using c by (simp add: execute_commit_def)
  have v': "view ?w' m = Inr ?db'" using c' by (simp add: view_def)
  have f': "find_table ?db' tn = Some (kv_table tn ?rows)"
    using f by (simp add: find_table_put)
  have dt': "dict_table ?w' m tn = Inr (kv_table tn ?rows)"
    using f' by (simp add: dict_table_result[OF c'])
  have fd: "find (key_matches (kv_table tn ?rows) (SText k)) ?rows = Some (kv_row k ?dump)"
  proof (rule find_append_last)
    have "key_matches (kv_table tn ?rows) (SText k) = (\<lambda>r. cell r ''key'' = SText k)"
      by (rule ext) (rule key_matches_kv)
    then show "find (key_matches (kv_table tn ?rows) (SText k))
        (filter (\<lambda>r. cell r ''key'' \<noteq> SText k) R) = None"
      by (simp only: find_filter_not)
    show "key_matches (kv_table tn ?rows) (SText k) (kv_row k ?dump)"
      by (simp only: key_matches_kv cell_kv_row)
  qed
  have g: "get_dict_value ?w' m tn k CastBool = Inr (PBool b)"
    unfolding get_dict_value_def dt'
    by (simp only: sum.case kv_table_sel fd option.case cast.case cell_kv_row to_python.simps
          py_int.simps)
      (cases b; simp add: py_int_str_1 py_int_str_0)
  from s v' f' g show ?thesis by (intro exI conjI)
qed

text \<open>C10 at the key \<open>flag\<close>, stored as \<open>0\<close> before, set to \<open>True\<close>.\<close>

theorem bool_round_trip_witness:
  "conns (open_world [kv_table ''settings'' [kv_row ''flag'' ''0'']]) (conn guild_manager)
     = Some \<lparr>c_path = [''cogs'', ''refix'', ''data'', ''guild_1.db''],
             c_view = [kv_table ''settings'' [kv_row ''flag'' ''0'']]\<rparr> \<and>
   find_table [kv_table ''settings'' [kv_row ''flag'' ''0'']] ''settings''
     = Some (kv_table ''settings'' [kv_row ''flag'' ''0'']) \<and>
   (\<exists>w' db'.
      set_dict_value (open_world [kv_table ''settings'' [kv_row ''flag'' ''0'']]) guild_manager
        ''settings'' ''flag'' (PBool True) = (Inr (), w') \<and>
      view w' guild_manager = Inr db' \<and>
      find_table db' ''settings'' = Some (kv_table ''settings'' [kv_row ''flag'' ''1'']) \<and>
      get_dict_value w' guild_manager ''settings'' ''flag'' CastBool = Inr (PBool True))"
proof -
  let ?db = "[kv_table ''settings'' [kv_row ''flag'' ''0'']]"
  have c: "conns (open_world ?db) (conn guild_manager)
     = Some \<lparr>c_path = [''cogs'', ''refix'', ''data'', ''guild_1.db''], c_view = ?db\<rparr>"
    by (rule open_world_conn)
  have f: "find_table ?db ''settings'' = Some (kv_table ''settings'' [kv_row ''flag'' ''0''])"
    by (simp add: find_table_def)
  have f': "find_table (c_view \<lparr>c_path = [''cogs'', ''refix'', ''data'', ''guild_1.db''], c_view = ?db\<rparr>)
      ''settings'' = Some (kv_table ''settings'' [kv_row ''flag'' ''0''])"
    using f by simp
  have rows: "filter (\<lambda>r. cell r ''key'' \<noteq> SText ''flag'') [kv_row ''flag'' ''0'']
      @ [kv_row ''flag'' (if True then ''1'' else ''0'')] = [kv_row ''flag'' ''1'']"
    by (simp add: cell_kv_row)
  note t = bool_round_trip[OF c f', of "''flag''" True, unfolded rows]
  from c f t show ?thesis by (intro conjI)
qed

end
